theory Spec2Isabelle
  imports
    Complex_Main
    "HOL-Library.Multiset"
    "HOL-Library.Char_ord"
    "HOL-Library.List_Lexorder"
begin

section \<open>Data model (frontend/src/types/stock.ts)\<close>

text \<open>
  The TypeScript union \<^verbatim>\<open>'accumulation' | 'distribution' | 'neutral'\<close> is a datatype.
  A JavaScript \<^verbatim>\<open>number\<close> that the schema stores in an INTEGER or BIGINT column is an
  \<open>int\<close>; one stored as DECIMAL is a \<open>real\<close>.  Timestamps stay strings, as in the
  interface.  The field \<^verbatim>\<open>value\<close> is \<open>value_traded\<close> here.
\<close>

datatype acc_dist = accumulation | distribution | neutral

record Stock =
  symbol :: string
  name :: string
  price :: real
  open_price :: real
  high :: real
  low :: real
  prev_close :: real
  volume :: int
  avg_volume :: int
  change :: real
  change_percent :: real
  bid :: real
  ask :: real
  bid_size :: int
  ask_size :: int
  iep :: real
  iev :: int
  ara :: real
  arb :: real
  ara_pct :: real
  arb_pct :: real
  market_cap :: int
  frequency :: int
  value_traded :: real
  foreign_buy :: int
  foreign_sell :: int
  net_foreign :: int
  acc_dist_status :: acc_dist
  acc_dist_score :: int
  volatility :: real
  spread :: real
  volume_spike :: real
  rsi :: real
  score :: int
  passed_screen :: bool
  updated_at :: string
  created_at :: string

text \<open>
  \<open>MarketStatus\<close>: the field \<^verbatim>\<open>id\<close> is \<open>id_ms\<close> and \<^verbatim>\<open>updated_at\<close> is
  \<open>updated_at_ms\<close>, the plain names being taken.
\<close>

record MarketStatus =
  id_ms :: int
  status :: string
  session :: string
  message :: string
  can_trade :: bool
  should_update :: bool
  updated_at_ms :: string

section \<open>Array operations of the hook\<close>

text \<open>
  \<^verbatim>\<open>Array.prototype.findIndex\<close>: the index of the first element that satisfies the
  predicate, \<open>-1\<close> when there is none.
\<close>

fun findIndex :: "('a \<Rightarrow> bool) \<Rightarrow> 'a list \<Rightarrow> int" where
  "findIndex P [] = - 1"
| "findIndex P (x # xs) =
     (if P x then 0
      else (let i = findIndex P xs in if i < 0 then - 1 else i + 1))"

text \<open>
  A stable sort driven by an ordering test \<open>before a b\<close> (``\<open>a\<close> may stay in front of
  \<open>b\<close>''): each element, taken from the right, is put in front of the first element it
  may precede.  Elements that the test does not separate keep their input order.
\<close>

fun place :: "('a \<Rightarrow> 'a \<Rightarrow> bool) \<Rightarrow> 'a \<Rightarrow> 'a list \<Rightarrow> 'a list" where
  "place before a [] = [a]"
| "place before a (b # bs) =
     (if before a b then a # b # bs else b # place before a bs)"

definition stable_sort :: "('a \<Rightarrow> 'a \<Rightarrow> bool) \<Rightarrow> 'a list \<Rightarrow> 'a list" where
  "stable_sort before xs = foldr (place before) xs []"

text \<open>
  \<^verbatim>\<open>Array.prototype.sort(compareFn)\<close> is stable (ECMAScript 2019): \<open>a\<close> comes before
  \<open>b\<close> when \<open>compareFn a b < 0\<close>, and elements with \<open>compareFn a b = 0\<close> keep their
  order.  The comparators of the hook are differences of integers.
\<close>

definition js_sort :: "('a \<Rightarrow> 'a \<Rightarrow> int) \<Rightarrow> 'a list \<Rightarrow> 'a list" where
  "js_sort compareFn xs = stable_sort (\<lambda>a b. compareFn a b \<le> 0) xs"

section \<open>The hook useStocks (frontend/src/hooks/useStocks.ts)\<close>

record UseStocksState =
  stocks :: "Stock list"
  marketStatus :: "MarketStatus option"
  loading :: bool
  error :: "string option"

text \<open>The four \<^verbatim>\<open>useState\<close> cells at their initial values.\<close>

definition useStocks_init :: UseStocksState where
  "useStocks_init =
     \<lparr>stocks = [], marketStatus = None, loading = True, error = None\<rparr>"

subsection \<open>Realtime handler of the stocks channel\<close>

datatype stocks_payload = INSERT Stock | UPDATE Stock | DELETE string

text \<open>The comparator \<^verbatim>\<open>(a, b) => b.score - a.score\<close> of the handler.\<close>

definition by_score :: "Stock \<Rightarrow> Stock \<Rightarrow> int" where
  "by_score a b = score b - score a"

text \<open>
  The updater passed to \<^verbatim>\<open>setStocks\<close> for an INSERT or UPDATE payload (lines 72 to 80):
  the row replaces the first row of its symbol or goes to the end, and the copy is
  sorted.  The index is in range whenever it is not negative.
\<close>

definition upsert_stock :: "Stock \<Rightarrow> Stock list \<Rightarrow> Stock list" where
  "upsert_stock newStock prev =
     (let index = findIndex (\<lambda>s. symbol s = symbol newStock) prev
      in if index \<ge> 0 then js_sort by_score (prev[nat index := newStock])
         else js_sort by_score (prev @ [newStock]))"

text \<open>The updater for a DELETE payload (line 83).\<close>

definition delete_stock :: "string \<Rightarrow> Stock list \<Rightarrow> Stock list" where
  "delete_stock oldSymbol prev = filter (\<lambda>s. symbol s \<noteq> oldSymbol) prev"

text \<open>The callback of the channel, on the list and on the whole state.\<close>

fun setStocks_event :: "stocks_payload \<Rightarrow> Stock list \<Rightarrow> Stock list" where
  "setStocks_event (INSERT newStock) prev = upsert_stock newStock prev"
| "setStocks_event (UPDATE newStock) prev = upsert_stock newStock prev"
| "setStocks_event (DELETE oldSymbol) prev = delete_stock oldSymbol prev"

definition on_stocks_change :: "stocks_payload \<Rightarrow> UseStocksState \<Rightarrow> UseStocksState" where
  "on_stocks_change payload st = st\<lparr>stocks := setStocks_event payload (stocks st)\<rparr>"

text \<open>The events of a stream, handled one after the other.\<close>

definition run_events :: "stocks_payload list \<Rightarrow> Stock list \<Rightarrow> Stock list" where
  "run_events evs init = foldl (\<lambda>prev ev. setStocks_event ev prev) init evs"

subsection \<open>Realtime handler of the market-status channel\<close>



subsection \<open>The values the hook returns\<close>

definition getRecommendationScore :: "Stock \<Rightarrow> int" where
  "getRecommendationScore s =
     (let recScore = score s;
          recScore = (if acc_dist_status s = accumulation then recScore + 50 else recScore);
          recScore = (if net_foreign s > 0 then recScore + 30 else recScore);
          recScore = (if change_percent s > 0 then recScore + 20 else recScore)
      in recScore)"

definition sortByRecommendation :: "Stock \<Rightarrow> Stock \<Rightarrow> int" where
  "sortByRecommendation a b = getRecommendationScore b - getRecommendationScore a"

text \<open>\<open>screenedStocks\<close> and the returned \<open>stocks\<close>, both computed from the state on
  every render.\<close>

definition screenedStocks :: "UseStocksState \<Rightarrow> Stock list" where
  "screenedStocks st = js_sort sortByRecommendation (filter passed_screen (stocks st))"

definition returned_stocks :: "UseStocksState \<Rightarrow> Stock list" where
  "returned_stocks st = js_sort sortByRecommendation (stocks st)"

subsection \<open>The one-shot fetch\<close>

text \<open>
  \<^verbatim>\<open>from('stocks').select('*').order('score', { ascending: false })\<close>: every row of the
  table, in non-increasing order of \<open>score\<close>.  The database does not fix the order of
  rows of equal score, so the query is a relation between the table and the array it
  may deliver.
\<close>

definition fetchStocks_order :: "Stock list \<Rightarrow> Stock list \<Rightarrow> bool" where
  "fetchStocks_order tbl stocksData \<longleftrightarrow>
     mset stocksData = mset tbl \<and> sorted_wrt (\<lambda>a b. score a \<ge> score b) stocksData"


text \<open>
  The state after \<open>fetchStocks\<close>: \<open>Inl\<close> is the message of a thrown error of the stocks
  query, \<open>Inr\<close> the two results.
\<close>

fun fetchStocks :: "string + (Stock list \<times> MarketStatus option) \<Rightarrow> UseStocksState \<Rightarrow> UseStocksState" where
  "fetchStocks (Inl msg) st = st\<lparr>loading := False, error := Some msg\<rparr>"
| "fetchStocks (Inr (stocksData, statusData)) st =
     st\<lparr>stocks := stocksData, marketStatus := statusData, loading := False, error := None\<rparr>"

section \<open>The pass-rate card (frontend/src/components/StatsCards.tsx)\<close>

text \<open>
  JavaScript numbers with their three special values.  Division of finite numbers does
  not raise: a zero divisor gives \<open>NaN\<close> or an infinity.  An operation on binary64
  numbers yields the exact result rounded to the nearest binary64 value; \<open>rnd\<close> is that
  rounding.  The operands here are lengths of arrays (below \<open>2 ^ 32\<close>), which are exact
  in binary64, and their quotients and the hundredfold of these are far below the
  overflow threshold, so the rounded result is finite.
\<close>

datatype js_number = Finite real | PosInfinity | NegInfinity | NaN

definition js_divide :: "(real \<Rightarrow> real) \<Rightarrow> real \<Rightarrow> real \<Rightarrow> js_number" where
  "js_divide rnd a b =
     (if b = 0 then (if a = 0 then NaN else if a > 0 then PosInfinity else NegInfinity)
      else Finite (rnd (a / b)))"

fun js_times :: "(real \<Rightarrow> real) \<Rightarrow> js_number \<Rightarrow> real \<Rightarrow> js_number" where
  "js_times rnd (Finite a) k = Finite (rnd (a * k))"
| "js_times rnd PosInfinity k =
     (if k = 0 then NaN else if k > 0 then PosInfinity else NegInfinity)"
| "js_times rnd NegInfinity k =
     (if k = 0 then NaN else if k > 0 then NegInfinity else PosInfinity)"
| "js_times rnd NaN k = NaN"

text \<open>
  What React puts on the page.  \<open>Tenths minus n\<close> is the text of \<^verbatim>\<open>toFixed(1)\<close> with
  the digits of \<open>n / 10\<close>, after a minus sign when \<open>minus\<close> holds: \<^verbatim>\<open>toFixed\<close> sets the
  sign apart and takes the tenth nearest to the exact magnitude of the number, the
  larger one on a tie.  From \<open>10 ^ 21\<close> on it gives the text of the number itself,
  \<open>Text_number\<close>.  \<open>Number_zero\<close> is the number \<open>0\<close> of the else branch.
\<close>

datatype rendered =
    Tenths bool int | Text_number real
  | Text_Infinity | Text_NegInfinity | Text_NaN | Number_zero

fun toFixed1 :: "js_number \<Rightarrow> rendered" where
  "toFixed1 (Finite x) =
     (if \<bar>x\<bar> \<ge> 10 ^ 21 then Text_number x
      else if x < 0 then Tenths True \<lfloor>- x * 10 + 1 / 2\<rfloor>
      else Tenths False \<lfloor>x * 10 + 1 / 2\<rfloor>)"
| "toFixed1 PosInfinity = Text_Infinity"
| "toFixed1 NegInfinity = Text_NegInfinity"
| "toFixed1 NaN = Text_NaN"

text \<open>The two props are lengths of arrays (\<^verbatim>\<open>stocks.length\<close>,
  \<^verbatim>\<open>screenedStocks.length\<close> in App.tsx); the prop \<^verbatim>\<open>screenedStocks\<close> is
  \<open>screenedCount\<close> here, the name being the hook's.\<close>

definition pass_rate :: "(real \<Rightarrow> real) \<Rightarrow> nat \<Rightarrow> nat \<Rightarrow> rendered" where
  "pass_rate rnd totalStocks screenedCount =
     (if totalStocks > 0
      then toFixed1 (js_times rnd (js_divide rnd (real screenedCount) (real totalStocks)) 100)
      else Number_zero)"

section \<open>The database schema (supabase/schema.sql)\<close>

subsection \<open>The view screened_stocks\<close>

text \<open>\<^verbatim>\<open>ORDER BY score DESC, symbol ASC\<close>: \<open>a\<close> is not after \<open>b\<close>.\<close>

definition view_order :: "Stock \<Rightarrow> Stock \<Rightarrow> bool" where
  "view_order a b \<longleftrightarrow> score a > score b \<or> (score a = score b \<and> symbol a \<le> symbol b)"

definition screened_stocks_view :: "Stock list \<Rightarrow> Stock list" where
  "screened_stocks_view tbl = stable_sort view_order (filter passed_screen tbl)"

subsection \<open>The table market_status\<close>

datatype sql_error =
    not_null_violation | unique_violation | check_violation
  | numeric_value_out_of_range | string_data_right_truncation | conversion_not_modelled







subsection \<open>The table stocks: column types and DEFAULT clauses\<close>

datatype stocks_column =
    col_symbol | col_name
  | col_price | col_open_price | col_high | col_low | col_prev_close
  | col_change | col_change_percent
  | col_volume | col_avg_volume | col_frequency | col_value
  | col_bid | col_ask | col_bid_size | col_ask_size
  | col_iep | col_iev
  | col_ara | col_arb | col_ara_pct | col_arb_pct
  | col_foreign_buy | col_foreign_sell | col_net_foreign
  | col_acc_dist_status | col_acc_dist_score
  | col_market_cap | col_volatility | col_spread | col_volume_spike | col_rsi
  | col_score | col_passed_screen
  | col_updated_at | col_created_at

datatype sql_type = VARCHAR nat | DECIMAL nat nat | BIGINT | INTEGER | BOOLEAN | TIMESTAMPTZ

datatype sql_value = SqlNull | SqlNum real | SqlText string | SqlBool bool | SqlTime string

fun column_type :: "stocks_column \<Rightarrow> sql_type" where
  "column_type col_symbol = VARCHAR 10"
| "column_type col_name = VARCHAR 255"
| "column_type col_price = DECIMAL 15 2"
| "column_type col_open_price = DECIMAL 15 2"
| "column_type col_high = DECIMAL 15 2"
| "column_type col_low = DECIMAL 15 2"
| "column_type col_prev_close = DECIMAL 15 2"
| "column_type col_change = DECIMAL 15 2"
| "column_type col_change_percent = DECIMAL 8 2"
| "column_type col_volume = BIGINT"
| "column_type col_avg_volume = BIGINT"
| "column_type col_frequency = INTEGER"
| "column_type col_value = DECIMAL 20 2"
| "column_type col_bid = DECIMAL 15 2"
| "column_type col_ask = DECIMAL 15 2"
| "column_type col_bid_size = BIGINT"
| "column_type col_ask_size = BIGINT"
| "column_type col_iep = DECIMAL 15 2"
| "column_type col_iev = BIGINT"
| "column_type col_ara = DECIMAL 15 2"
| "column_type col_arb = DECIMAL 15 2"
| "column_type col_ara_pct = DECIMAL 8 2"
| "column_type col_arb_pct = DECIMAL 8 2"
| "column_type col_foreign_buy = BIGINT"
| "column_type col_foreign_sell = BIGINT"
| "column_type col_net_foreign = BIGINT"
| "column_type col_acc_dist_status = VARCHAR 20"
| "column_type col_acc_dist_score = INTEGER"
| "column_type col_market_cap = BIGINT"
| "column_type col_volatility = DECIMAL 8 2"
| "column_type col_spread = DECIMAL 8 2"
| "column_type col_volume_spike = DECIMAL 8 2"
| "column_type col_rsi = DECIMAL 8 2"
| "column_type col_score = INTEGER"
| "column_type col_passed_screen = BOOLEAN"
| "column_type col_updated_at = TIMESTAMPTZ"
| "column_type col_created_at = TIMESTAMPTZ"

definition numeric_column :: "stocks_column \<Rightarrow> bool" where
  "numeric_column c =
     (case column_type c of
        DECIMAL p q \<Rightarrow> True | BIGINT \<Rightarrow> True | INTEGER \<Rightarrow> True
      | VARCHAR n \<Rightarrow> False | BOOLEAN \<Rightarrow> False | TIMESTAMPTZ \<Rightarrow> False)"

text \<open>The DEFAULT clause of each column; a column without one defaults to NULL.\<close>

fun column_default :: "string \<Rightarrow> stocks_column \<Rightarrow> sql_value" where
  "column_default now col_symbol = SqlNull"
| "column_default now col_name = SqlNull"
| "column_default now col_price = SqlNum 0"
| "column_default now col_open_price = SqlNum 0"
| "column_default now col_high = SqlNum 0"
| "column_default now col_low = SqlNum 0"
| "column_default now col_prev_close = SqlNum 0"
| "column_default now col_change = SqlNum 0"
| "column_default now col_change_percent = SqlNum 0"
| "column_default now col_volume = SqlNum 0"
| "column_default now col_avg_volume = SqlNum 0"
| "column_default now col_frequency = SqlNum 0"
| "column_default now col_value = SqlNum 0"
| "column_default now col_bid = SqlNum 0"
| "column_default now col_ask = SqlNum 0"
| "column_default now col_bid_size = SqlNum 0"
| "column_default now col_ask_size = SqlNum 0"
| "column_default now col_iep = SqlNum 0"
| "column_default now col_iev = SqlNum 0"
| "column_default now col_ara = SqlNum 0"
| "column_default now col_arb = SqlNum 0"
| "column_default now col_ara_pct = SqlNum 0"
| "column_default now col_arb_pct = SqlNum 0"
| "column_default now col_foreign_buy = SqlNum 0"
| "column_default now col_foreign_sell = SqlNum 0"
| "column_default now col_net_foreign = SqlNum 0"
| "column_default now col_acc_dist_status = SqlText ''neutral''"
| "column_default now col_acc_dist_score = SqlNum 0"
| "column_default now col_market_cap = SqlNum 0"
| "column_default now col_volatility = SqlNum 0"
| "column_default now col_spread = SqlNum 0"
| "column_default now col_volume_spike = SqlNum 100"
| "column_default now col_rsi = SqlNum 50"
| "column_default now col_score = SqlNum 0"
| "column_default now col_passed_screen = SqlBool False"
| "column_default now col_updated_at = SqlTime now"
| "column_default now col_created_at = SqlTime now"

text \<open>
  What a column of a type stores for a value of the same kind.  NULL is stored as it
  is.  A number is rounded to the scale of a DECIMAL column, or to an integer for
  BIGINT and INTEGER (to the nearest, a tie away from zero), and is refused when it
  does not fit the precision or the range.  A text longer than a VARCHAR column is
  refused unless only spaces are cut off.  Conversions between kinds (a number given
  for a text column, say) are not part of this fragment: for a value of another kind
  than the column's the result is \<open>conversion_not_modelled\<close>, which says nothing about
  the database.
\<close>

definition round_numeric :: "real \<Rightarrow> int" where
  "round_numeric x = (if x < 0 then - \<lfloor>- x + 1 / 2\<rfloor> else \<lfloor>x + 1 / 2\<rfloor>)"

fun store_as :: "sql_type \<Rightarrow> sql_value \<Rightarrow> sql_error + sql_value" where
  "store_as ty SqlNull = Inr SqlNull"
| "store_as (DECIMAL p q) (SqlNum x) =
     (let n = round_numeric (x * 10 ^ q)
      in if \<bar>n\<bar> < 10 ^ p then Inr (SqlNum (real_of_int n / 10 ^ q))
         else Inl numeric_value_out_of_range)"
| "store_as BIGINT (SqlNum x) =
     (let n = round_numeric x
      in if - (2 ^ 63) \<le> n \<and> n < 2 ^ 63 then Inr (SqlNum (real_of_int n))
         else Inl numeric_value_out_of_range)"
| "store_as INTEGER (SqlNum x) =
     (let n = round_numeric x
      in if - (2 ^ 31) \<le> n \<and> n < 2 ^ 31 then Inr (SqlNum (real_of_int n))
         else Inl numeric_value_out_of_range)"
| "store_as (VARCHAR n) (SqlText t) =
     (if list_all (\<lambda>ch. ch = CHR '' '') (drop n t) then Inr (SqlText (take n t))
      else Inl string_data_right_truncation)"
| "store_as BOOLEAN (SqlBool b) = Inr (SqlBool b)"
| "store_as TIMESTAMPTZ (SqlTime t) = Inr (SqlTime t)"
| "store_as ty v = Inl conversion_not_modelled"

definition stocks_columns :: "stocks_column list" where
  "stocks_columns =
     [col_symbol, col_name, col_price, col_open_price, col_high, col_low, col_prev_close,
      col_change, col_change_percent, col_volume, col_avg_volume, col_frequency, col_value,
      col_bid, col_ask, col_bid_size, col_ask_size, col_iep, col_iev,
      col_ara, col_arb, col_ara_pct, col_arb_pct,
      col_foreign_buy, col_foreign_sell, col_net_foreign,
      col_acc_dist_status, col_acc_dist_score,
      col_market_cap, col_volatility, col_spread, col_volume_spike, col_rsi,
      col_score, col_passed_screen, col_updated_at, col_created_at]"

text \<open>
  \<^verbatim>\<open>INSERT INTO stocks (...) VALUES (...)\<close>: \<open>cols\<close> maps the columns the statement
  lists to their values; every other column takes its default.  Each value is stored
  as its column's type stores it, the first column that refuses its value failing the
  statement.  \<open>symbol\<close> (the primary key) and \<open>name\<close> are NOT NULL, and \<open>symbol\<close> is
  unique in the table; no other column has a NOT NULL constraint.
\<close>

definition fill_defaults :: "string \<Rightarrow> (stocks_column \<rightharpoonup> sql_value) \<Rightarrow> stocks_column \<Rightarrow> sql_value" where
  "fill_defaults now cols c = (case cols c of Some v \<Rightarrow> v | None \<Rightarrow> column_default now c)"

definition insert_stocks ::
  "string \<Rightarrow> (stocks_column \<rightharpoonup> sql_value) \<Rightarrow> (stocks_column \<Rightarrow> sql_value) list \<Rightarrow>
   sql_error + (stocks_column \<Rightarrow> sql_value) list" where
  "insert_stocks now cols tbl =
     (let stored = (\<lambda>c. store_as (column_type c) (fill_defaults now cols c))
      in case find (\<lambda>c. isl (stored c)) stocks_columns of
           Some c \<Rightarrow> Inl (projl (stored c))
         | None \<Rightarrow>
             (let row = (\<lambda>c. projr (stored c))
              in if row col_symbol = SqlNull \<or> row col_name = SqlNull
                 then Inl not_null_violation
                 else if row col_symbol \<in> set (map (\<lambda>r. r col_symbol) tbl)
                 then Inl unique_violation
                 else Inr (tbl @ [row])))"

text \<open>The columns that an insert may leave out with a numeric default, and that
  default: the neutral value of the column.\<close>

definition neutral_value :: "stocks_column \<Rightarrow> real" where
  "neutral_value c = (if c = col_volume_spike then 100 else if c = col_rsi then 50 else 0)"

text \<open>The columns whose fields \<open>getRecommendationScore\<close> reads (useStocks.ts, lines 116
  to 119).\<close>

definition ranking_columns :: "stocks_column list" where
  "ranking_columns = [col_score, col_acc_dist_status, col_net_foreign, col_change_percent]"

section \<open>The screening and scoring engine\<close>

text \<open>Modelled from the spec: the thresholds and weights of the Screening and Scoring
  Engine (section 4.3), which the spec makes tunable parameters.  The engine is the
  scraper (scraper/scrape_stocks.py), which is not among the sources.\<close>

record screen_config =
  price_low :: real
  price_high :: real
  volume_above :: int
  volatility_above :: real
  change_percent_above :: real
  spread_below :: real
  weight_price :: int
  weight_liquidity :: int
  weight_volatility :: int
  weight_momentum :: int
  weight_spread :: int

text \<open>Modelled from the spec: the listed default values of the thresholds and weights
  (section 4.3; the same table is in the README); the scraper that holds them is not
  among the sources.\<close>

definition default_config :: screen_config where
  "default_config =
     \<lparr>price_low = 100, price_high = 10000, volume_above = 1000000,
      volatility_above = 2, change_percent_above = 1 / 2, spread_below = 2,
      weight_price = 20, weight_liquidity = 25, weight_volatility = 20,
      weight_momentum = 15, weight_spread = 20\<rparr>"

datatype criterion = Price_band | Liquidity | Volatility | Momentum | Spread

text \<open>Modelled from the spec: the condition of each criterion (table of section 4.3);
  the scraper's screening function is not among the sources.\<close>

fun criterion_holds :: "screen_config \<Rightarrow> Stock \<Rightarrow> criterion \<Rightarrow> bool" where
  "criterion_holds cfg s Price_band \<longleftrightarrow> price_low cfg \<le> price s \<and> price s \<le> price_high cfg"
| "criterion_holds cfg s Liquidity \<longleftrightarrow> volume s > volume_above cfg"
| "criterion_holds cfg s Volatility \<longleftrightarrow> volatility s > volatility_above cfg"
| "criterion_holds cfg s Momentum \<longleftrightarrow> change_percent s > change_percent_above cfg"
| "criterion_holds cfg s Spread \<longleftrightarrow> spread s < spread_below cfg"

text \<open>Modelled from the spec: the weight of each criterion (table of section 4.3); the
  scraper's weight table is not among the sources.\<close>

fun weight :: "screen_config \<Rightarrow> criterion \<Rightarrow> int" where
  "weight cfg Price_band = weight_price cfg"
| "weight cfg Liquidity = weight_liquidity cfg"
| "weight cfg Volatility = weight_volatility cfg"
| "weight cfg Momentum = weight_momentum cfg"
| "weight cfg Spread = weight_spread cfg"

text \<open>Modelled from the spec: \<open>score\<close>, to which each criterion that passes contributes
  its weight and a failing one 0 (section 4.3); the scraper's scoring function is not
  among the sources.\<close>

definition compute_score :: "screen_config \<Rightarrow> Stock \<Rightarrow> int" where
  "compute_score cfg s =
     (if criterion_holds cfg s Price_band then weight_price cfg else 0)
     + (if criterion_holds cfg s Liquidity then weight_liquidity cfg else 0)
     + (if criterion_holds cfg s Volatility then weight_volatility cfg else 0)
     + (if criterion_holds cfg s Momentum then weight_momentum cfg else 0)
     + (if criterion_holds cfg s Spread then weight_spread cfg else 0)"

text \<open>Modelled from the spec: \<open>passed_screen\<close>, the five criteria combined by logical
  AND (section 4.3); the scraper's screening function is not among the sources.\<close>

definition compute_passed_screen :: "screen_config \<Rightarrow> Stock \<Rightarrow> bool" where
  "compute_passed_screen cfg s \<longleftrightarrow>
     criterion_holds cfg s Price_band \<and> criterion_holds cfg s Liquidity
     \<and> criterion_holds cfg s Volatility \<and> criterion_holds cfg s Momentum
     \<and> criterion_holds cfg s Spread"

text \<open>Modelled from the spec: the engine writes both results into the snapshot
  (sections 3 and 4.3); the scraper is not among the sources.\<close>

definition screen :: "screen_config \<Rightarrow> Stock \<Rightarrow> Stock" where
  "screen cfg s = s\<lparr>score := compute_score cfg s, passed_screen := compute_passed_screen cfg s\<rparr>"

section \<open>Reference definitions for the reconciliation contract\<close>

text \<open>
  The contract of section 4.6 in its own words, to compare the handler with: the
  local state as a mapping keyed by symbol, an insert or update event writing the row
  under its symbol, a delete event removing the symbol.
\<close>

definition keyed :: "Stock list \<Rightarrow> (string \<rightharpoonup> Stock)" where
  "keyed xs = map_of (map (\<lambda>s. (symbol s, s)) xs)"

fun spec_apply :: "(string \<rightharpoonup> Stock) \<Rightarrow> stocks_payload \<Rightarrow> (string \<rightharpoonup> Stock)" where
  "spec_apply m (INSERT newStock) = m(symbol newStock \<mapsto> newStock)"
| "spec_apply m (UPDATE newStock) = m(symbol newStock \<mapsto> newStock)"
| "spec_apply m (DELETE oldSymbol) = m(oldSymbol := None)"

text \<open>``If the symbol already exists in local state, replace it in place; otherwise
  append it.''\<close>

fun replace_or_append :: "Stock \<Rightarrow> Stock list \<Rightarrow> Stock list" where
  "replace_or_append newStock [] = [newStock]"
| "replace_or_append newStock (s # rest) =
     (if symbol s = symbol newStock then newStock # rest
      else s # replace_or_append newStock rest)"

section \<open>Sample rows\<close>

text \<open>A row with every column at the default of the schema.\<close>

definition blank_stock :: "string \<Rightarrow> Stock" where
  "blank_stock code =
     \<lparr>symbol = code, name = code, price = 0, open_price = 0, high = 0, low = 0,
      prev_close = 0, volume = 0, avg_volume = 0, change = 0, change_percent = 0,
      bid = 0, ask = 0, bid_size = 0, ask_size = 0, iep = 0, iev = 0,
      ara = 0, arb = 0, ara_pct = 0, arb_pct = 0,
      market_cap = 0, frequency = 0, value_traded = 0,
      foreign_buy = 0, foreign_sell = 0, net_foreign = 0,
      acc_dist_status = neutral, acc_dist_score = 0,
      volatility = 0, spread = 0, volume_spike = 100, rsi = 50,
      score = 0, passed_screen = False, updated_at = [], created_at = []\<rparr>"

text \<open>Three rows for the examples: \<open>stock_A\<close> has the lower score and the accumulation
  bonus, \<open>stock_B\<close> the higher score and no bonus, \<open>stock_C\<close> is a later snapshot of
  the symbol of \<open>stock_A\<close>.\<close>

definition stock_A :: Stock where
  "stock_A = (blank_stock ''AAAA'')
     \<lparr>score := 10, acc_dist_status := accumulation, passed_screen := True\<rparr>"

definition stock_B :: Stock where
  "stock_B = (blank_stock ''BBBB'')\<lparr>score := 20, passed_screen := True\<rparr>"

definition stock_C :: Stock where
  "stock_C = (blank_stock ''AAAA'')\<lparr>score := 45, net_foreign := 7\<rparr>"

section \<open>Properties of the sort\<close>

lemma place_insort_key: "place (\<lambda>a b. f a \<le> f b) x xs = insort_key f x xs"
  by (induction xs) simp_all

lemma stable_sort_sort_key: "stable_sort (\<lambda>a b. f a \<le> f b) xs = sort_key f xs"
proof -
  have "place (\<lambda>a b. f a \<le> f b) = insort_key f"
    by (intro ext) (rule place_insort_key)
  then show ?thesis
    by (simp add: stable_sort_def sort_key_def)
qed

lemma js_sort_difference:
  fixes k :: "'a \<Rightarrow> int"
  shows "js_sort (\<lambda>a b. k b - k a) xs = sort_key (\<lambda>s. - k s) xs"
proof -
  have "stable_sort (\<lambda>a b. k b - k a \<le> 0) xs = stable_sort (\<lambda>a b. - k a \<le> - k b) xs"
    by simp
  also have "\<dots> = sort_key (\<lambda>s. - k s) xs"
    by (rule stable_sort_sort_key)
  finally show ?thesis
    unfolding js_sort_def .
qed

lemma js_sort_by_score: "js_sort by_score xs = sort_key (\<lambda>s. - score s) xs"
proof -
  have h: "by_score = (\<lambda>a b. score b - score a)"
    by (intro ext) (simp add: by_score_def)
  show ?thesis
    unfolding h by (rule js_sort_difference)
qed

lemma js_sort_recommendation:
  "js_sort sortByRecommendation xs = sort_key (\<lambda>s. - getRecommendationScore s) xs"
proof -
  have h: "sortByRecommendation = (\<lambda>a b. getRecommendationScore b - getRecommendationScore a)"
    by (intro ext) (simp add: sortByRecommendation_def)
  show ?thesis
    unfolding h by (rule js_sort_difference)
qed

lemma mset_place: "mset (place before a xs) = add_mset a (mset xs)"
  by (induction xs) simp_all

lemma mset_stable_sort: "mset (stable_sort before xs) = mset xs"
  unfolding stable_sort_def by (induction xs) (simp_all add: mset_place)

lemma set_place: "set (place before a xs) = insert a (set xs)"
  using mset_place [of before a xs, THEN arg_cong, of set_mset] by simp

lemma sorted_wrt_place:
  assumes total: "\<And>a b. before a b \<or> before b a"
    and trans: "\<And>a b c. before a b \<Longrightarrow> before b c \<Longrightarrow> before a c"
  shows "sorted_wrt before xs \<Longrightarrow> sorted_wrt before (place before a xs)"
proof (induction xs)
  case Nil
  show ?case by simp
next
  case (Cons b bs)
  show ?case
  proof (cases "before a b")
    case True
    with Cons.prems trans show ?thesis by auto
  next
    case False
    with total have "before b a" by blast
    with False Cons show ?thesis by (auto simp: set_place)
  qed
qed

lemma sorted_wrt_stable_sort:
  assumes total: "\<And>a b. before a b \<or> before b a"
    and trans: "\<And>a b c. before a b \<Longrightarrow> before b c \<Longrightarrow> before a c"
  shows "sorted_wrt before (stable_sort before xs)"
  unfolding stable_sort_def
  by (induction xs) (simp_all add: sorted_wrt_place [OF total trans])

lemma view_order_total: "view_order a b \<or> view_order b a"
  unfolding view_order_def by (cases "score a" "score b" rule: linorder_cases) auto

lemma view_order_trans: "view_order a b \<Longrightarrow> view_order b c \<Longrightarrow> view_order a c"
  unfolding view_order_def by auto

lemma sorted_screened_stocks_view: "sorted_wrt view_order (screened_stocks_view tbl)"
  unfolding screened_stocks_view_def
  by (rule sorted_wrt_stable_sort) (rule view_order_total, erule view_order_trans)

section \<open>Properties of the stocks handler\<close>

lemma findIndex_found: "0 \<le> findIndex P xs \<longleftrightarrow> (\<exists>x\<in>set xs. P x)"
  by (induction xs) (auto simp: Let_def)

lemma findIndex_replace:
  "0 \<le> findIndex (\<lambda>s. symbol s = symbol n) prev \<Longrightarrow>
   prev[nat (findIndex (\<lambda>s. symbol s = symbol n) prev) := n] = replace_or_append n prev"
proof (induction prev)
  case Nil
  then show ?case by simp
next
  case (Cons s rest)
  show ?case
  proof (cases "symbol s = symbol n")
    case True
    then show ?thesis by simp
  next
    case False
    with Cons.prems have pos: "0 \<le> findIndex (\<lambda>s. symbol s = symbol n) rest"
      by (simp add: Let_def split: if_splits)
    then have "nat (findIndex (\<lambda>s. symbol s = symbol n) rest + 1)
        = Suc (nat (findIndex (\<lambda>s. symbol s = symbol n) rest))"
      by simp
    with False pos Cons.IH show ?thesis
      by (simp add: Let_def)
  qed
qed

lemma findIndex_append:
  "findIndex (\<lambda>s. symbol s = symbol n) prev < 0 \<Longrightarrow> prev @ [n] = replace_or_append n prev"
  by (induction prev) (auto simp: Let_def split: if_splits)

lemma upsert_stock_eq: "upsert_stock n prev = js_sort by_score (replace_or_append n prev)"
  by (cases "0 \<le> findIndex (\<lambda>s. symbol s = symbol n) prev")
     (simp_all add: upsert_stock_def Let_def findIndex_replace findIndex_append)

lemma keyed_replace_or_append: "keyed (replace_or_append n prev) = (keyed prev)(symbol n \<mapsto> n)"
  by (induction prev) (auto simp: keyed_def)

lemma keyed_delete_stock: "keyed (delete_stock k prev) = (keyed prev)(k := None)"
  by (induction prev) (auto simp: keyed_def delete_stock_def)

lemma symbols_replace_or_append:
  "set (map symbol (replace_or_append n prev)) = insert (symbol n) (set (map symbol prev))"
  by (induction prev) auto

lemma distinct_replace_or_append:
  "distinct (map symbol prev) \<Longrightarrow> distinct (map symbol (replace_or_append n prev))"
proof (induction prev)
  case Nil
  show ?case by simp
next
  case (Cons s rest)
  then show ?case
    using symbols_replace_or_append [of n rest] by (auto simp: image_iff)
qed

lemma length_replace_or_append:
  "length (replace_or_append n prev)
     = (if symbol n \<in> set (map symbol prev) then length prev else length prev + 1)"
  by (induction prev) auto

lemma distinct_symbols_mset:
  assumes "mset xs = mset ys"
  shows "distinct (map symbol xs) \<longleftrightarrow> distinct (map symbol ys)"
proof -
  from assms have "mset (map symbol xs) = mset (map symbol ys)"
    by simp
  then show ?thesis
    by (rule mset_eq_imp_distinct_iff)
qed

lemma keyed_mset:
  assumes perm: "mset xs = mset ys" and dist: "distinct (map symbol ys)"
  shows "keyed xs = keyed ys"
proof -
  from dist have dx: "distinct (map symbol xs)"
    using distinct_symbols_mset [OF perm] by simp
  from perm have "set xs = set ys"
    by (rule mset_eq_setD)
  then have "set (map (\<lambda>s. (symbol s, s)) xs) = set (map (\<lambda>s. (symbol s, s)) ys)"
    by simp
  moreover have "distinct (map fst (map (\<lambda>s. (symbol s, s)) xs))"
    using dx by (simp add: comp_def)
  moreover have "distinct (map fst (map (\<lambda>s. (symbol s, s)) ys))"
    using dist by (simp add: comp_def)
  ultimately show ?thesis
    unfolding keyed_def by (simp add: map_of_inject_set)
qed

lemma mset_js_sort: "mset (js_sort compareFn xs) = mset xs"
  by (simp add: js_sort_def mset_stable_sort)

lemma distinct_setStocks_event:
  "distinct (map symbol prev) \<Longrightarrow> distinct (map symbol (setStocks_event ev prev))"
proof (cases ev)
  case (DELETE k)
  assume "distinct (map symbol prev)"
  then show ?thesis
    by (simp add: DELETE delete_stock_def distinct_map_filter)
next
  case (INSERT n)
  assume "distinct (map symbol prev)"
  then show ?thesis
    using distinct_symbols_mset [OF mset_js_sort, of by_score "replace_or_append n prev"]
    by (simp add: INSERT upsert_stock_eq distinct_replace_or_append)
next
  case (UPDATE n)
  assume "distinct (map symbol prev)"
  then show ?thesis
    using distinct_symbols_mset [OF mset_js_sort, of by_score "replace_or_append n prev"]
    by (simp add: UPDATE upsert_stock_eq distinct_replace_or_append)
qed

lemma keyed_upsert_stock:
  assumes "distinct (map symbol prev)"
  shows "keyed (upsert_stock n prev) = (keyed prev)(symbol n \<mapsto> n)"
proof -
  have "keyed (js_sort by_score (replace_or_append n prev)) = keyed (replace_or_append n prev)"
    by (rule keyed_mset) (simp_all add: mset_js_sort distinct_replace_or_append assms)
  then show ?thesis
    by (simp add: upsert_stock_eq keyed_replace_or_append)
qed

lemma keyed_setStocks_event:
  "distinct (map symbol prev) \<Longrightarrow> keyed (setStocks_event ev prev) = spec_apply (keyed prev) ev"
  by (cases ev) (simp_all add: keyed_upsert_stock keyed_delete_stock)

lemma distinct_run_events:
  "distinct (map symbol init) \<Longrightarrow> distinct (map symbol (run_events evs init))"
  unfolding run_events_def
  by (induction evs arbitrary: init) (simp_all add: distinct_setStocks_event)

lemma keyed_run_events:
  "distinct (map symbol init) \<Longrightarrow> keyed (run_events evs init) = foldl spec_apply (keyed init) evs"
  unfolding run_events_def
  by (induction evs arbitrary: init) (simp_all add: distinct_setStocks_event keyed_setStocks_event)

lemma ran_keyed: "distinct (map symbol xs) \<Longrightarrow> ran (keyed xs) = set xs"
  unfolding keyed_def by (subst ran_distinct) (simp_all add: comp_def image_image)

section \<open>Further properties of the ranking\<close>

lemma sorted_js_sort_recommendation:
  "sorted_wrt (\<lambda>a b. getRecommendationScore a \<ge> getRecommendationScore b)
     (js_sort sortByRecommendation xs)"
  using sorted_sort_key [of "\<lambda>s. - getRecommendationScore s" xs]
  by (simp add: js_sort_recommendation sorted_map)

lemma sorted_js_sort_by_score:
  "sorted_wrt (\<lambda>a b. score a \<ge> score b) (js_sort by_score xs)"
  using sorted_sort_key [of "\<lambda>s. - score s" xs]
  by (simp add: js_sort_by_score sorted_map)

lemma js_sort_recommendation_fixpoint:
  "js_sort sortByRecommendation xs = xs \<longleftrightarrow>
   sorted_wrt (\<lambda>a b. getRecommendationScore a \<ge> getRecommendationScore b) xs"
proof
  assume "js_sort sortByRecommendation xs = xs"
  then show "sorted_wrt (\<lambda>a b. getRecommendationScore a \<ge> getRecommendationScore b) xs"
    using sorted_js_sort_recommendation [of xs] by simp
next
  assume "sorted_wrt (\<lambda>a b. getRecommendationScore a \<ge> getRecommendationScore b) xs"
  then have "sorted (map (\<lambda>s. - getRecommendationScore s) xs)"
    by (simp add: sorted_map)
  then show "js_sort sortByRecommendation xs = xs"
    by (simp add: js_sort_recommendation sort_key_id_if_sorted)
qed

lemma filter_js_sort_recommendation:
  "filter P (js_sort sortByRecommendation xs) = js_sort sortByRecommendation (filter P xs)"
  by (simp add: js_sort_recommendation filter_sort)

section \<open>Properties of the market-status table\<close>



section \<open>Properties of the insert into stocks\<close>

lemma stocks_columns_all: "c \<in> set stocks_columns"
  by (cases c) (simp_all add: stocks_columns_def)

lemma store_numeric_default:
  "numeric_column c \<Longrightarrow>
   store_as (column_type c) (column_default now c) = Inr (SqlNum (neutral_value c))"
  by (cases c) (simp_all add: numeric_column_def neutral_value_def round_numeric_def Let_def)

lemma numeric_default: "numeric_column c \<Longrightarrow> column_default now c = SqlNum (neutral_value c)"
  by (cases c) (simp_all add: numeric_column_def neutral_value_def)

lemma store_default: "store_as (column_type c) (column_default now c) = Inr (column_default now c)"
  by (cases c) (simp_all add: round_numeric_def Let_def)

lemma insert_stocks_Inr:
  assumes "insert_stocks now cols tbl = Inr tbl'"
  shows "tbl' = tbl @ [\<lambda>c. projr (store_as (column_type c) (fill_defaults now cols c))]"
    and "store_as (column_type c) (fill_defaults now cols c)
         = Inr (projr (store_as (column_type c) (fill_defaults now cols c)))"
proof -
  let ?stored = "\<lambda>c. store_as (column_type c) (fill_defaults now cols c)"
  from assms have none: "find (\<lambda>c. isl (?stored c)) stocks_columns = None"
    by (auto simp: insert_stocks_def Let_def split: option.splits)
  with assms show "tbl' = tbl @ [\<lambda>c. projr (?stored c)]"
    by (auto simp: insert_stocks_def Let_def split: if_splits)
  from none have "\<not> isl (?stored c)"
    using stocks_columns_all [of c] by (auto simp: find_None_iff)
  then show "?stored c = Inr (projr (?stored c))"
    by (cases "?stored c") simp_all
qed

lemma insert_stocks_minimal:
  assumes "length k \<le> 10" and "length n \<le> 255"
  shows "insert_stocks now [col_symbol \<mapsto> SqlText k, col_name \<mapsto> SqlText n] []
         = Inr [(column_default now)(col_symbol := SqlText k, col_name := SqlText n)]"
proof -
  let ?cols = "[col_symbol \<mapsto> SqlText k, col_name \<mapsto> SqlText n]"
  let ?stored = "\<lambda>c. store_as (column_type c) (fill_defaults now ?cols c)"
  let ?row = "(column_default now)(col_symbol := SqlText k, col_name := SqlText n)"
  have stored: "?stored c = Inr (?row c)" for c
  proof (cases "c = col_symbol \<or> c = col_name")
    case True
    with assms show ?thesis
      by (auto simp: fill_defaults_def)
  next
    case False
    then show ?thesis
      by (simp add: fill_defaults_def store_default)
  qed
  then have "find (\<lambda>c. isl (?stored c)) stocks_columns = None"
    by (simp add: find_None_iff)
  moreover have "(\<lambda>c. projr (?stored c)) = ?row"
    by (intro ext) (simp only: stored sum.sel)
  ultimately show ?thesis
    by (simp add: insert_stocks_def Let_def)
qed

section \<open>The claims\<close>

subsection \<open>C1: server-side order and client order\<close>

text \<open>
  C1, as stated, fails.  The table holds \<open>stock_A\<close> (score 10, combined ranking 60) and
  \<open>stock_B\<close> (score 20, combined ranking 20).  The fetch, ordered by \<open>score\<close>, delivers
  \<open>stock_B\<close> first, and so does the view \<open>screened_stocks\<close>; the hook returns
  \<open>stock_A\<close> first, in \<open>stocks\<close> and in \<open>screenedStocks\<close>.
\<close>

theorem server_order_is_not_ranking_order:
  "fetchStocks_order [stock_A, stock_B] [stock_B, stock_A]
   \<and> returned_stocks (fetchStocks (Inr ([stock_B, stock_A], None)) useStocks_init)
       = [stock_A, stock_B]
   \<and> screened_stocks_view [stock_A, stock_B] = [stock_B, stock_A]
   \<and> screenedStocks (fetchStocks (Inr ([stock_B, stock_A], None)) useStocks_init)
       = [stock_A, stock_B]
   \<and> stock_A \<noteq> stock_B"
  by (simp add: fetchStocks_order_def returned_stocks_def screenedStocks_def
      screened_stocks_view_def view_order_def js_sort_def stable_sort_def
      sortByRecommendation_def getRecommendationScore_def useStocks_init_def
      stock_A_def stock_B_def blank_stock_def)

text \<open>
  C1, amended.  The server orders by the stored \<open>score\<close> alone: the fetch delivers the
  rows of the table in non-increasing order of \<open>score\<close>, the view \<open>screened_stocks\<close> the
  rows that passed the screen by \<open>score\<close> descending, then \<open>symbol\<close> ascending.  The hook
  sorts what it fetched by the combined ranking: the \<open>stocks\<close> it returns are the rows of
  the table in non-increasing order of the combined ranking, and they are in the order
  the server delivered exactly when that order is already non-increasing in the
  combined ranking.  The hook's \<open>screenedStocks\<close> and the view hold the same rows.
\<close>

theorem server_orders_by_score_client_by_ranking:
  "fetchStocks_order tbl stocksData \<Longrightarrow>
     sorted_wrt (\<lambda>a b. score a \<ge> score b) stocksData
   \<and> sorted_wrt view_order (screened_stocks_view tbl)
   \<and> mset (screened_stocks_view tbl) = mset (filter passed_screen tbl)
   \<and> mset (returned_stocks (fetchStocks (Inr (stocksData, statusData)) st)) = mset tbl
   \<and> sorted_wrt (\<lambda>a b. getRecommendationScore a \<ge> getRecommendationScore b)
        (returned_stocks (fetchStocks (Inr (stocksData, statusData)) st))
   \<and> (returned_stocks (fetchStocks (Inr (stocksData, statusData)) st) = stocksData
        \<longleftrightarrow> sorted_wrt (\<lambda>a b. getRecommendationScore a \<ge> getRecommendationScore b) stocksData)
   \<and> mset (screenedStocks (fetchStocks (Inr (stocksData, statusData)) st))
       = mset (screened_stocks_view tbl)"
proof -
  assume fetched: "fetchStocks_order tbl stocksData"
  let ?st = "fetchStocks (Inr (stocksData, statusData)) st"
  from fetched have scr: "mset (screenedStocks ?st) = mset (screened_stocks_view tbl)"
    by (simp add: screenedStocks_def screened_stocks_view_def mset_js_sort mset_stable_sort
        fetchStocks_order_def)
  have ret: "returned_stocks ?st = js_sort sortByRecommendation stocksData"
    by (simp add: returned_stocks_def)
  have view: "mset (screened_stocks_view tbl) = mset (filter passed_screen tbl)"
    by (simp add: screened_stocks_view_def mset_stable_sort)
  from fetched have "mset (js_sort sortByRecommendation stocksData) = mset tbl"
    by (simp add: mset_js_sort fetchStocks_order_def)
  then have "mset (returned_stocks ?st) = mset tbl"
    by (simp only: ret)
  moreover from fetched have "sorted_wrt (\<lambda>a b. score a \<ge> score b) stocksData"
    by (simp add: fetchStocks_order_def)
  ultimately show ?thesis
    using view scr sorted_screened_stocks_view [of tbl]
    by (simp only: ret sorted_js_sort_recommendation js_sort_recommendation_fixpoint simp_thms)
qed

theorem server_orders_by_score_client_by_ranking_witness:
  "fetchStocks_order [stock_C, stock_B] [stock_C, stock_B]
   \<and> returned_stocks (fetchStocks (Inr ([stock_C, stock_B], None)) useStocks_init)
       = [stock_C, stock_B]"
proof -
  have h: "fetchStocks_order [stock_C, stock_B] [stock_C, stock_B]"
    by (simp add: fetchStocks_order_def stock_C_def stock_B_def)
  have "sorted_wrt (\<lambda>a b. getRecommendationScore a \<ge> getRecommendationScore b)
          [stock_C, stock_B]"
    by (simp add: getRecommendationScore_def stock_C_def stock_B_def blank_stock_def)
  with server_orders_by_score_client_by_ranking [OF h, of None useStocks_init] h
  show ?thesis by simp
qed

subsection \<open>C2: the presentation ranking\<close>

text \<open>
  C2, as stated, fails in its tie-break.  Two rows of equal combined ranking, the one
  with the lexically greater symbol first, stay as they are: \<open>sortByRecommendation\<close>
  compares the combined ranking only.
\<close>

theorem ranking_tie_keeps_input_order:
  "getRecommendationScore (blank_stock ''BBRI'') = getRecommendationScore (blank_stock ''ASII'')
   \<and> symbol (blank_stock ''ASII'') < symbol (blank_stock ''BBRI'')
   \<and> js_sort sortByRecommendation [blank_stock ''BBRI'', blank_stock ''ASII'']
       = [blank_stock ''BBRI'', blank_stock ''ASII'']"
  by (simp add: js_sort_def stable_sort_def sortByRecommendation_def
      getRecommendationScore_def blank_stock_def)

text \<open>
  C2, amended.  The combined value is \<open>score\<close> plus 50 when \<open>acc_dist_status\<close> is
  accumulation, plus 30 when \<open>net_foreign > 0\<close>, plus 20 when \<open>change_percent > 0\<close>.
  For every list, the ranking returns the same rows in non-increasing order of the
  combined value; rows of equal combined value keep their order of the input; and
  sorting a sorted list again yields the same sequence.
\<close>

theorem ranking_descending_stable_idempotent:
  "getRecommendationScore s
     = score s + (if acc_dist_status s = accumulation then 50 else 0)
       + (if net_foreign s > 0 then 30 else 0) + (if change_percent s > 0 then 20 else 0)
   \<and> sorted_wrt (\<lambda>a b. getRecommendationScore a \<ge> getRecommendationScore b)
        (js_sort sortByRecommendation xs)
   \<and> mset (js_sort sortByRecommendation xs) = mset xs
   \<and> filter (\<lambda>s. getRecommendationScore s = k) (js_sort sortByRecommendation xs)
       = filter (\<lambda>s. getRecommendationScore s = k) xs
   \<and> js_sort sortByRecommendation (js_sort sortByRecommendation xs)
       = js_sort sortByRecommendation xs"
proof -
  have "filter (\<lambda>s. - getRecommendationScore s = - k)
          (sort_key (\<lambda>s. - getRecommendationScore s) xs)
      = filter (\<lambda>s. - getRecommendationScore s = - k) xs"
    by (rule sort_key_stable)
  then have stable: "filter (\<lambda>s. getRecommendationScore s = k) (js_sort sortByRecommendation xs)
      = filter (\<lambda>s. getRecommendationScore s = k) xs"
    by (simp add: js_sort_recommendation)
  have idem: "js_sort sortByRecommendation (js_sort sortByRecommendation xs)
      = js_sort sortByRecommendation xs"
    by (simp add: js_sort_recommendation_fixpoint sorted_js_sort_recommendation)
  have formula: "getRecommendationScore s
     = score s + (if acc_dist_status s = accumulation then 50 else 0)
       + (if net_foreign s > 0 then 30 else 0) + (if change_percent s > 0 then 20 else 0)"
    by (simp add: getRecommendationScore_def)
  from formula stable idem show ?thesis
    by (simp only: sorted_js_sort_recommendation mset_js_sort simp_thms)
qed

subsection \<open>C3: the screened collection\<close>

text \<open>
  C3.  In every state of the hook, \<open>screenedStocks\<close> is the returned full collection
  filtered by \<open>passed_screen\<close>: it holds exactly the rows of the state that passed, in
  the order of the same combined ranking.  It is a function of the state, which has no
  second list, so this holds after every event as well.
\<close>

theorem screened_is_filter_of_full:
  "screenedStocks st = filter passed_screen (returned_stocks st)
   \<and> screenedStocks st = js_sort sortByRecommendation (filter passed_screen (stocks st))
   \<and> mset (screenedStocks st) = filter_mset passed_screen (mset (stocks st))
   \<and> sorted_wrt (\<lambda>a b. getRecommendationScore a \<ge> getRecommendationScore b) (screenedStocks st)
   \<and> screenedStocks (on_stocks_change ev st)
       = filter passed_screen (returned_stocks (on_stocks_change ev st))"
  by (simp add: screenedStocks_def returned_stocks_def filter_js_sort_recommendation
      mset_js_sort sorted_js_sort_recommendation)

subsection \<open>C4: the insert/update handler\<close>

text \<open>
  C4, as stated, fails in the sort key.  With \<open>stock_A\<close> in the state, an insert event
  for \<open>stock_B\<close> leaves \<open>stock_B\<close> (score 20, combined ranking 20) in front of \<open>stock_A\<close>
  (score 10, combined ranking 60); the combined ranking puts \<open>stock_A\<close> first.
\<close>

theorem handler_sorts_by_score_only:
  "setStocks_event (INSERT stock_B) [stock_A] = [stock_B, stock_A]
   \<and> js_sort sortByRecommendation (replace_or_append stock_B [stock_A]) = [stock_A, stock_B]
   \<and> stock_A \<noteq> stock_B"
  by (simp add: upsert_stock_def Let_def js_sort_def stable_sort_def by_score_def
      sortByRecommendation_def getRecommendationScore_def
      stock_A_def stock_B_def blank_stock_def)

text \<open>
  C4, amended.  For every local state and every insert or update event, the handler
  replaces the row in place when a row with the event's symbol exists and appends it
  otherwise, and then sorts the local collection by \<open>score\<close> descending.  The combined
  ranking is applied when the hook returns: the returned \<open>stocks\<close> hold the rows of the
  new state in non-increasing order of the combined ranking.
\<close>

theorem upsert_replaces_then_sorts_by_score:
  "setStocks_event (INSERT newStock) prev = js_sort by_score (replace_or_append newStock prev)
   \<and> setStocks_event (UPDATE newStock) prev = js_sort by_score (replace_or_append newStock prev)
   \<and> sorted_wrt (\<lambda>a b. score a \<ge> score b) (js_sort by_score (replace_or_append newStock prev))
   \<and> mset (returned_stocks (on_stocks_change (UPDATE newStock) st))
       = mset (replace_or_append newStock (stocks st))
   \<and> mset (returned_stocks (on_stocks_change (INSERT newStock) st))
       = mset (replace_or_append newStock (stocks st))
   \<and> sorted_wrt (\<lambda>a b. getRecommendationScore a \<ge> getRecommendationScore b)
        (returned_stocks (on_stocks_change (UPDATE newStock) st))
   \<and> sorted_wrt (\<lambda>a b. getRecommendationScore a \<ge> getRecommendationScore b)
        (returned_stocks (on_stocks_change (INSERT newStock) st))"
  by (simp add: upsert_stock_eq sorted_js_sort_by_score returned_stocks_def
      on_stocks_change_def mset_js_sort sorted_js_sort_recommendation)

subsection \<open>C5: events folded in order\<close>

text \<open>
  C5.  For an initial fetch with one row per symbol and every sequence of insert,
  update and delete events, the local state, read as a mapping keyed by symbol, is the
  initial fetch with the events folded in their order: an insert or update writes the
  row under its symbol, a delete removes the symbol.  The rows of the state are exactly
  the values of that mapping, one row for each key.
\<close>

theorem events_fold_in_order:
  "distinct (map symbol init) \<Longrightarrow>
     keyed (run_events evs init) = foldl spec_apply (keyed init) evs
   \<and> set (run_events evs init) = ran (foldl spec_apply (keyed init) evs)
   \<and> length (run_events evs init) = card (dom (foldl spec_apply (keyed init) evs))"
proof -
  assume d: "distinct (map symbol init)"
  let ?final = "run_events evs init"
  have k: "keyed ?final = foldl spec_apply (keyed init) evs"
    using d by (rule keyed_run_events)
  have d': "distinct (map symbol ?final)"
    using d by (rule distinct_run_events)
  have "dom (keyed ?final) = set (map symbol ?final)"
    unfolding keyed_def by (simp add: dom_map_of_conv_image_fst image_image)
  then have "card (dom (keyed ?final)) = length ?final"
    using distinct_card [OF d'] by simp
  with k ran_keyed [OF d'] show ?thesis by simp
qed

theorem events_fold_in_order_witness:
  "distinct (map symbol [stock_A, stock_B])
   \<and> keyed (run_events [UPDATE stock_C, DELETE ''BBBB''] [stock_A, stock_B])
       = foldl spec_apply (keyed [stock_A, stock_B]) [UPDATE stock_C, DELETE ''BBBB'']
   \<and> run_events [UPDATE stock_C, DELETE ''BBBB''] [stock_A, stock_B] = [stock_C]"
proof -
  have h: "distinct (map symbol [stock_A, stock_B])"
    by (simp add: stock_A_def stock_B_def blank_stock_def)
  have "run_events [UPDATE stock_C, DELETE ''BBBB''] [stock_A, stock_B] = [stock_C]"
    by (simp add: run_events_def upsert_stock_def delete_stock_def Let_def js_sort_def
        stable_sort_def by_score_def stock_A_def stock_B_def stock_C_def blank_stock_def)
  with events_fold_in_order [OF h, of "[UPDATE stock_C, DELETE ''BBBB'']"] h
  show ?thesis by simp
qed

subsection \<open>C6: score and passed_screen\<close>

text \<open>
  C6.  With the listed thresholds and weights, for every snapshot the score lies
  between 0 and 100 and is the sum of the weights (price band 20, liquidity 25,
  volatility 20, momentum 15, spread 20) of exactly the criteria that hold, and
  \<open>passed_screen\<close> is true if and only if all five criteria hold (which is when the
  score is 100).
\<close>

theorem score_is_sum_of_passed_weights:
  "0 \<le> score (screen default_config s)
   \<and> score (screen default_config s) \<le> 100
   \<and> score (screen default_config s)
       = sum_list (map (weight default_config)
           (filter (criterion_holds default_config s)
              [Price_band, Liquidity, Volatility, Momentum, Spread]))
   \<and> map (weight default_config) [Price_band, Liquidity, Volatility, Momentum, Spread]
       = [20, 25, 20, 15, 20]
   \<and> (passed_screen (screen default_config s) \<longleftrightarrow>
        100 \<le> price s \<and> price s \<le> 10000 \<and> volume s > 1000000 \<and> volatility s > 2
        \<and> change_percent s > 1 / 2 \<and> spread s < 2)
   \<and> (passed_screen (screen default_config s) \<longleftrightarrow> score (screen default_config s) = 100)"
  by (simp add: screen_def compute_score_def compute_passed_screen_def default_config_def)

subsection \<open>C7: the market-status record\<close>




subsection \<open>C8: defaults of the numeric columns\<close>

text \<open>
  C8, as stated, fails in its conclusion.  The numeric columns are nullable: an insert
  that gives NULL for \<open>price\<close> and for \<open>score\<close> succeeds and stores NULL in both, the
  one an input of the screening criteria and the other the base of the ranking that
  \<open>getRecommendationScore\<close> computes.
\<close>

theorem explicit_null_is_stored:
  "\<not> isl (insert_stocks ''t0''
        [col_symbol \<mapsto> SqlText ''BBCA'', col_name \<mapsto> SqlText ''Bank Central Asia'',
         col_price \<mapsto> SqlNull, col_score \<mapsto> SqlNull] [])
   \<and> length (projr (insert_stocks ''t0''
        [col_symbol \<mapsto> SqlText ''BBCA'', col_name \<mapsto> SqlText ''Bank Central Asia'',
         col_price \<mapsto> SqlNull, col_score \<mapsto> SqlNull] [])) = 1
   \<and> last (projr (insert_stocks ''t0''
        [col_symbol \<mapsto> SqlText ''BBCA'', col_name \<mapsto> SqlText ''Bank Central Asia'',
         col_price \<mapsto> SqlNull, col_score \<mapsto> SqlNull] [])) col_score = SqlNull
   \<and> last (projr (insert_stocks ''t0''
        [col_symbol \<mapsto> SqlText ''BBCA'', col_name \<mapsto> SqlText ''Bank Central Asia'',
         col_price \<mapsto> SqlNull, col_score \<mapsto> SqlNull] [])) col_price = SqlNull
   \<and> numeric_column col_score \<and> numeric_column col_price
   \<and> col_score \<in> set ranking_columns"
  by (simp add: insert_stocks_def Let_def stocks_columns_def fill_defaults_def
      round_numeric_def numeric_column_def ranking_columns_def)

text \<open>
  C8, amended.  A successful insert appends one row.  A numeric column that the insert
  omits is stored with its neutral value, 100 for \<open>volume_spike\<close>, 50 for \<open>rsi\<close> and 0
  for every other numeric column, and so never as NULL; a column for which the insert
  gives NULL is stored as NULL; any other column holds what its type stores for the
  given value or the default.  An insert that gives only a symbol of at most 10 and a
  name of at most 255 characters succeeds into the empty table, and its row has every
  other column at its default.
\<close>

theorem omitted_numeric_column_takes_default:
  "insert_stocks now cols tbl = Inr tbl' \<Longrightarrow> length k \<le> 10 \<Longrightarrow> length n \<le> 255 \<Longrightarrow>
     tbl' = tbl @ [last tbl']
   \<and> (if numeric_column c \<and> cols c = None
       then last tbl' c = SqlNum (neutral_value c) \<and> last tbl' c \<noteq> SqlNull
       else if cols c = Some SqlNull then last tbl' c = SqlNull
       else store_as (column_type c) (fill_defaults now cols c) = Inr (last tbl' c))
   \<and> neutral_value c = (if c = col_volume_spike then 100 else if c = col_rsi then 50 else 0)
   \<and> insert_stocks now [col_symbol \<mapsto> SqlText k, col_name \<mapsto> SqlText n] []
       = Inr [(column_default now)(col_symbol := SqlText k, col_name := SqlText n)]"
proof -
  assume ins: "insert_stocks now cols tbl = Inr tbl'"
    and k: "length k \<le> 10" and n: "length n \<le> 255"
  let ?stored = "\<lambda>c. store_as (column_type c) (fill_defaults now cols c)"
  from insert_stocks_Inr(1) [OF ins] have last: "last tbl' = (\<lambda>c. projr (?stored c))"
    and app: "tbl' = tbl @ [last tbl']"
    by simp_all
  have stored: "?stored c = Inr (last tbl' c)"
    using insert_stocks_Inr(2) [OF ins, of c] by (simp add: last)
  have omitted: "last tbl' c = SqlNum (neutral_value c)"
    if "numeric_column c" "cols c = None"
    using that stored store_numeric_default [of c now] by (simp add: fill_defaults_def)
  have null: "last tbl' c = SqlNull" if "cols c = Some SqlNull"
    using that stored by (simp add: fill_defaults_def)
  from app omitted null stored insert_stocks_minimal [OF k n, of now]
  show ?thesis
    by (simp add: neutral_value_def)
qed

theorem omitted_numeric_column_takes_default_witness:
  "insert_stocks ''t0''
      [col_symbol \<mapsto> SqlText ''BBCA'', col_name \<mapsto> SqlText ''Bank Central Asia'',
       col_price \<mapsto> SqlNum 9875]
      []
     = Inr [(column_default ''t0'')(col_symbol := SqlText ''BBCA'',
              col_name := SqlText ''Bank Central Asia'', col_price := SqlNum 9875)]
   \<and> length ''BBCA'' \<le> 10 \<and> length ''Bank Central Asia'' \<le> 255
   \<and> numeric_column col_volume_spike
   \<and> ((column_default ''t0'')(col_symbol := SqlText ''BBCA'',
              col_name := SqlText ''Bank Central Asia'', col_price := SqlNum 9875))
        col_volume_spike = SqlNum 100"
proof -
  let ?cols = "[col_symbol \<mapsto> SqlText ''BBCA'', col_name \<mapsto> SqlText ''Bank Central Asia'',
       col_price \<mapsto> SqlNum 9875]"
  let ?row = "(column_default ''t0'')(col_symbol := SqlText ''BBCA'',
              col_name := SqlText ''Bank Central Asia'', col_price := SqlNum 9875)"
  have stored: "store_as (column_type c) (fill_defaults ''t0'' ?cols c) = Inr (?row c)" for c
    by (cases c) (simp_all add: fill_defaults_def round_numeric_def Let_def)
  then have "find (\<lambda>c. isl (store_as (column_type c) (fill_defaults ''t0'' ?cols c)))
      stocks_columns = None"
    by (simp add: find_None_iff)
  moreover have "(\<lambda>c. projr (store_as (column_type c) (fill_defaults ''t0'' ?cols c))) = ?row"
    by (intro ext) (simp only: stored sum.sel)
  ultimately have ins: "insert_stocks ''t0'' ?cols [] = Inr [?row]"
    by (simp add: insert_stocks_def Let_def)
  have k: "length ''BBCA'' \<le> 10" and n: "length ''Bank Central Asia'' \<le> 255"
    by simp_all
  have num: "numeric_column col_volume_spike"
    by (simp add: numeric_column_def)
  from omitted_numeric_column_takes_default [OF ins k n, of col_volume_spike] ins k n num
  show ?thesis
    by (simp add: neutral_value_def)
qed

subsection \<open>C9: one row per symbol\<close>

text \<open>
  C9.  If the local state holds at most one row per symbol, it still does after every
  sequence of insert, update and delete events, and after each single event; an insert
  or update event for a symbol that is present leaves the number of rows as it is, one
  for an absent symbol adds exactly one row.
\<close>

theorem one_row_per_symbol:
  "distinct (map symbol init) \<Longrightarrow>
     distinct (map symbol (run_events evs init))
   \<and> distinct (map symbol (setStocks_event ev init))
   \<and> length (setStocks_event (UPDATE newStock) init)
       = (if symbol newStock \<in> set (map symbol init) then length init else length init + 1)
   \<and> length (setStocks_event (INSERT newStock) init)
       = (if symbol newStock \<in> set (map symbol init) then length init else length init + 1)"
proof -
  assume d: "distinct (map symbol init)"
  have "length (js_sort by_score (replace_or_append newStock init))
      = length (replace_or_append newStock init)"
    using mset_js_sort [of by_score "replace_or_append newStock init"]
    by (rule mset_eq_length)
  then have "length (upsert_stock newStock init)
      = (if symbol newStock \<in> set (map symbol init) then length init else length init + 1)"
    by (simp only: upsert_stock_eq length_replace_or_append)
  with distinct_run_events [OF d] distinct_setStocks_event [OF d] show ?thesis
    by simp
qed

theorem one_row_per_symbol_witness:
  "distinct (map symbol [stock_A, stock_B])
   \<and> distinct (map symbol
        (run_events [INSERT stock_C, DELETE ''BBBB'', INSERT stock_B] [stock_A, stock_B]))"
proof -
  have h: "distinct (map symbol [stock_A, stock_B])"
    by (simp add: stock_A_def stock_B_def blank_stock_def)
  from one_row_per_symbol [OF h] h show ?thesis by blast
qed

subsection \<open>C10: the pass rate\<close>

text \<open>
  C10.  For every pair of counts the pass-rate card never shows NaN nor an infinity:
  the quotient is taken only when \<open>totalStocks > 0\<close>, where the card shows the text of
  \<^verbatim>\<open>toFixed(1)\<close> for the finite binary64 value of the quotient times 100, and the card
  shows the number 0 when \<open>totalStocks\<close> is 0.  This holds whatever the rounding of the
  two operations is.
\<close>

theorem pass_rate_never_nan:
  "pass_rate rnd totalStocks screenedCount \<noteq> Text_NaN
   \<and> pass_rate rnd totalStocks screenedCount \<noteq> Text_Infinity
   \<and> pass_rate rnd totalStocks screenedCount \<noteq> Text_NegInfinity
   \<and> pass_rate rnd 0 screenedCount = Number_zero
   \<and> pass_rate rnd totalStocks screenedCount
       = (if totalStocks > 0
          then toFixed1 (Finite (rnd (rnd (real screenedCount / real totalStocks) * 100)))
          else Number_zero)"
proof (cases "totalStocks > 0")
  case True
  then have "js_divide rnd (real screenedCount) (real totalStocks)
      = Finite (rnd (real screenedCount / real totalStocks))"
    by (simp add: js_divide_def)
  then have "js_times rnd (js_divide rnd (real screenedCount) (real totalStocks)) 100
      = Finite (rnd (rnd (real screenedCount / real totalStocks) * 100))"
    by simp
  with True have eq: "pass_rate rnd totalStocks screenedCount
      = toFixed1 (Finite (rnd (rnd (real screenedCount / real totalStocks) * 100)))"
    by (simp only: pass_rate_def if_True)
  have "toFixed1 (Finite x) \<noteq> Text_NaN \<and> toFixed1 (Finite x) \<noteq> Text_Infinity
      \<and> toFixed1 (Finite x) \<noteq> Text_NegInfinity" for x
    by simp
  with True eq show ?thesis
    by (simp add: pass_rate_def)
next
  case False
  then show ?thesis
    by (simp add: pass_rate_def)
qed

end
